theory Spec2Isabelle
  imports Main
begin

section \<open>Data model of \<open>src/lib/store-chats.ts\<close>\<close>

text \<open>
  JavaScript numbers that the store handles are token counts and millisecond timestamps;
  they are modelled as unbounded integers. An optional property (\<open>f?: T\<close>) and a nullable
  one (\<open>T | null\<close>) are \<open>T option\<close>. The identifier types \<open>SystemPurposeId\<close> and
  \<open>ChatModelId\<close> are declared in \<open>@/lib/data\<close>; the store only passes them through, so
  they are strings here. Two interfaces share field names (\<open>id\<close>, \<open>cacheTokensCount\<close>,
  \<open>created\<close>, \<open>updated\<close>), so the fields of \<open>DMessage\<close> carry the prefix \<open>m_\<close>, those of
  \<open>DConversation\<close> the prefix \<open>c_\<close> and those of \<open>Partial<DMessage>\<close> the prefix \<open>p_\<close>.
\<close>

type_synonym number = int
type_synonym SystemPurposeId = string
type_synonym ChatModelId = string

datatype Role = assistant | system | user

record DMessage =
  m_id :: string
  m_text :: string
  m_sender :: string
  m_avatar :: "string option"
  m_typing :: bool
  m_role :: Role
  m_modelId :: "string option"
  m_purposeId :: "SystemPurposeId option"
  m_cacheTokensCount :: "number option"
  m_created :: number
  m_updated :: "number option"

text \<open>
  \<open>Partial<DMessage>\<close>: every key may be missing (\<open>None\<close>: the spread leaves the field of
  the message as it is). A key that is present overwrites the field; for the three
  optional properties of \<open>DMessage\<close> and the two nullable ones the value written may
  itself be \<open>undefined\<close> or \<open>null\<close> (\<open>Some None\<close>). A payload that writes \<open>undefined\<close>
  into a required property would leave a value that is no \<open>DMessage\<close>; such payloads are
  outside the model.
\<close>

record DMessagePartial =
  p_id :: "string option"
  p_text :: "string option"
  p_sender :: "string option"
  p_avatar :: "string option option"
  p_typing :: "bool option"
  p_role :: "Role option"
  p_modelId :: "string option option"
  p_purposeId :: "SystemPurposeId option option"
  p_cacheTokensCount :: "number option option"
  p_created :: "number option"
  p_updated :: "number option option"

record DConversation =
  c_id :: string
  c_name :: string
  c_messages :: "DMessage list"
  c_systemPurposeId :: SystemPurposeId
  c_chatModelId :: ChatModelId
  c_userTitle :: "string option"
  c_autoTitle :: "string option"
  c_cacheTokensCount :: "number option"
  c_created :: number
  c_updated :: "number option"

record ConversationsStore =
  conversations :: "DConversation list"
  activeConversationId :: "string option"

text \<open>
  What the module reads from outside when it is loaded: the constant
  \<open>defaultChatModelId\<close> of \<open>@/lib/data\<close>, and the clock at the two calls of
  \<open>createConversation\<close> that build \<open>defaultConversations\<close> and \<open>errorConversation\<close>.
\<close>

record Env =
  defaultChatModelId :: ChatModelId
  loadTimeDefault :: number
  loadTimeError :: number

section \<open>Helpers of the source\<close>

text \<open>\<open>x || 0\<close> on an optional number: \<open>undefined\<close> and \<open>0\<close> are falsy.\<close>

definition orZero :: "number option \<Rightarrow> number" where
  "orZero x = (case x of None \<Rightarrow> 0 | Some n \<Rightarrow> (if n = 0 then 0 else n))"

text \<open>\<open>messages.reduce((sum, message) => sum + (message.cacheTokensCount || 0), 0)\<close>\<close>

definition sumTokens :: "DMessage list \<Rightarrow> number" where
  "sumTokens messages = foldl (\<lambda>sum message. sum + orZero (m_cacheTokensCount message)) 0 messages"

text \<open>
  \<open>createConversation\<close>: the object literal has no \<open>userTitle\<close>, \<open>autoTitle\<close> or
  \<open>cacheTokensCount\<close> key. \<open>Date.now()\<close> is the parameter \<open>now\<close>.
\<close>

definition createConversation ::
  "string \<Rightarrow> string \<Rightarrow> SystemPurposeId \<Rightarrow> ChatModelId \<Rightarrow> number \<Rightarrow> DConversation" where
  "createConversation ident name systemPurposeId chatModelId now =
     \<lparr> c_id = ident, c_name = name, c_messages = [],
       c_systemPurposeId = systemPurposeId, c_chatModelId = chatModelId,
       c_userTitle = None, c_autoTitle = None, c_cacheTokensCount = None,
       c_created = now, c_updated = Some now \<rparr>"

definition defaultConversations :: "Env \<Rightarrow> DConversation list" where
  "defaultConversations env =
     [createConversation ''default'' ''Conversation'' ''Generic''
        (defaultChatModelId env) (loadTimeDefault env)]"

definition errorConversation :: "Env \<Rightarrow> DConversation" where
  "errorConversation env =
     createConversation ''error-missing'' ''Missing Conversation'' ''Developer''
       (defaultChatModelId env) (loadTimeError env)"

section \<open>The store\<close>

text \<open>
  Each setter calls zustand's \<open>set\<close> with a partial state, which is merged into the
  current one: a setter that returns \<open>{conversations: ...}\<close> leaves
  \<open>activeConversationId\<close> as it is, and the other way round. The clock is a parameter:
  every \<open>Date.now()\<close> of one setter call reads the same \<open>now\<close> (the call is synchronous;
  a tick of the clock in the middle of a call is not modelled). The \<open>persist\<close> wrapper
  only copies the state to storage and is left out; the store starts in \<open>initialState\<close>.
\<close>

definition initialState :: "Env \<Rightarrow> ConversationsStore" where
  "initialState env =
     \<lparr> conversations = defaultConversations env,
       activeConversationId = Some (c_id (hd (defaultConversations env))) \<rparr>"

definition addConversation :: "DConversation \<Rightarrow> ConversationsStore \<Rightarrow> ConversationsStore" where
  "addConversation conversation state =
     state\<lparr>conversations := conversation # take 19 (conversations state)\<rparr>"

definition deleteConversation :: "string \<Rightarrow> ConversationsStore \<Rightarrow> ConversationsStore" where
  "deleteConversation conversationId state =
     state\<lparr>conversations :=
       filter (\<lambda>conversation. c_id conversation \<noteq> conversationId) (conversations state)\<rparr>"

definition resetConversations :: "Env \<Rightarrow> ConversationsStore \<Rightarrow> ConversationsStore" where
  "resetConversations env state = state\<lparr>conversations := defaultConversations env\<rparr>"

definition setActiveConversationId :: "string \<Rightarrow> ConversationsStore \<Rightarrow> ConversationsStore" where
  "setActiveConversationId conversationId state =
     state\<lparr>activeConversationId := Some conversationId\<rparr>"

text \<open>
  The callback of \<open>addMessage\<close>: \<open>{...conversation, ...(id differs ? {} : {messages,
  cacheTokensCount, updated})}\<close>. The aggregate is the stored value plus the count of the
  new message.
\<close>

definition addMessage_conv :: "number \<Rightarrow> string \<Rightarrow> DMessage \<Rightarrow> DConversation \<Rightarrow> DConversation" where
  "addMessage_conv now conversationId message conversation =
     (if c_id conversation \<noteq> conversationId then conversation
      else conversation\<lparr>
        c_messages := c_messages conversation @ [message],
        c_cacheTokensCount :=
          Some (orZero (c_cacheTokensCount conversation) + orZero (m_cacheTokensCount message)),
        c_updated := Some now\<rparr>)"

definition addMessage :: "number \<Rightarrow> string \<Rightarrow> DMessage \<Rightarrow> ConversationsStore \<Rightarrow> ConversationsStore" where
  "addMessage now conversationId message state =
     state\<lparr>conversations := map (addMessage_conv now conversationId message) (conversations state)\<rparr>"

text \<open>\<open>{...message, ...updatedMessage, updated: Date.now()}\<close>\<close>

definition mergeMessage :: "number \<Rightarrow> DMessagePartial \<Rightarrow> DMessage \<Rightarrow> DMessage" where
  "mergeMessage now updatedMessage message =
     \<lparr> m_id = (case p_id updatedMessage of None \<Rightarrow> m_id message | Some v \<Rightarrow> v),
       m_text = (case p_text updatedMessage of None \<Rightarrow> m_text message | Some v \<Rightarrow> v),
       m_sender = (case p_sender updatedMessage of None \<Rightarrow> m_sender message | Some v \<Rightarrow> v),
       m_avatar = (case p_avatar updatedMessage of None \<Rightarrow> m_avatar message | Some v \<Rightarrow> v),
       m_typing = (case p_typing updatedMessage of None \<Rightarrow> m_typing message | Some v \<Rightarrow> v),
       m_role = (case p_role updatedMessage of None \<Rightarrow> m_role message | Some v \<Rightarrow> v),
       m_modelId = (case p_modelId updatedMessage of None \<Rightarrow> m_modelId message | Some v \<Rightarrow> v),
       m_purposeId =
         (case p_purposeId updatedMessage of None \<Rightarrow> m_purposeId message | Some v \<Rightarrow> v),
       m_cacheTokensCount =
         (case p_cacheTokensCount updatedMessage of
            None \<Rightarrow> m_cacheTokensCount message | Some v \<Rightarrow> v),
       m_created = (case p_created updatedMessage of None \<Rightarrow> m_created message | Some v \<Rightarrow> v),
       m_updated = Some now \<rparr>"

definition editMessage_msg :: "number \<Rightarrow> string \<Rightarrow> DMessagePartial \<Rightarrow> DMessage \<Rightarrow> DMessage" where
  "editMessage_msg now messageId updatedMessage message =
     (if m_id message = messageId then mergeMessage now updatedMessage message else message)"

definition editMessage_conv ::
  "number \<Rightarrow> string \<Rightarrow> string \<Rightarrow> DMessagePartial \<Rightarrow> DConversation \<Rightarrow> DConversation" where
  "editMessage_conv now conversationId messageId updatedMessage conversation =
     (if c_id conversation = conversationId then
        (let newMessages = map (editMessage_msg now messageId updatedMessage) (c_messages conversation)
         in conversation\<lparr>
              c_messages := newMessages,
              c_cacheTokensCount := Some (sumTokens newMessages),
              c_updated := Some now\<rparr>)
      else conversation)"

definition editMessage ::
  "number \<Rightarrow> string \<Rightarrow> string \<Rightarrow> DMessagePartial \<Rightarrow> ConversationsStore \<Rightarrow> ConversationsStore" where
  "editMessage now conversationId messageId updatedMessage state =
     state\<lparr>conversations :=
       map (editMessage_conv now conversationId messageId updatedMessage) (conversations state)\<rparr>"

definition removeMessage_conv :: "number \<Rightarrow> string \<Rightarrow> string \<Rightarrow> DConversation \<Rightarrow> DConversation" where
  "removeMessage_conv now conversationId messageId conversation =
     (if c_id conversation = conversationId then
        (let newMessages = filter (\<lambda>message. m_id message \<noteq> messageId) (c_messages conversation)
         in conversation\<lparr>
              c_messages := newMessages,
              c_cacheTokensCount := Some (sumTokens newMessages),
              c_updated := Some now\<rparr>)
      else conversation)"

definition removeMessage :: "number \<Rightarrow> string \<Rightarrow> string \<Rightarrow> ConversationsStore \<Rightarrow> ConversationsStore" where
  "removeMessage now conversationId messageId state =
     state\<lparr>conversations :=
       map (removeMessage_conv now conversationId messageId) (conversations state)\<rparr>"

definition replaceMessages_conv ::
  "number \<Rightarrow> string \<Rightarrow> DMessage list \<Rightarrow> DConversation \<Rightarrow> DConversation" where
  "replaceMessages_conv now conversationId newMessages conversation =
     (if c_id conversation = conversationId then
        conversation\<lparr>
          c_messages := newMessages,
          c_cacheTokensCount := Some (sumTokens newMessages),
          c_updated := Some now\<rparr>
      else conversation)"

definition replaceMessages ::
  "number \<Rightarrow> string \<Rightarrow> DMessage list \<Rightarrow> ConversationsStore \<Rightarrow> ConversationsStore" where
  "replaceMessages now conversationId newMessages state =
     state\<lparr>conversations :=
       map (replaceMessages_conv now conversationId newMessages) (conversations state)\<rparr>"

definition setSystemPurposeId_conv ::
  "number \<Rightarrow> string \<Rightarrow> SystemPurposeId \<Rightarrow> DConversation \<Rightarrow> DConversation" where
  "setSystemPurposeId_conv now conversationId systemPurposeId conversation =
     (if c_id conversation = conversationId then
        conversation\<lparr>c_systemPurposeId := systemPurposeId, c_updated := Some now\<rparr>
      else conversation)"

definition setSystemPurposeId ::
  "number \<Rightarrow> string \<Rightarrow> SystemPurposeId \<Rightarrow> ConversationsStore \<Rightarrow> ConversationsStore" where
  "setSystemPurposeId now conversationId systemPurposeId state =
     state\<lparr>conversations :=
       map (setSystemPurposeId_conv now conversationId systemPurposeId) (conversations state)\<rparr>"

definition setChatModelId_conv ::
  "number \<Rightarrow> string \<Rightarrow> ChatModelId \<Rightarrow> DConversation \<Rightarrow> DConversation" where
  "setChatModelId_conv now conversationId chatModelId conversation =
     (if c_id conversation = conversationId then
        conversation\<lparr>c_chatModelId := chatModelId, c_updated := Some now\<rparr>
      else conversation)"

definition setChatModelId ::
  "number \<Rightarrow> string \<Rightarrow> ChatModelId \<Rightarrow> ConversationsStore \<Rightarrow> ConversationsStore" where
  "setChatModelId now conversationId chatModelId state =
     state\<lparr>conversations :=
       map (setChatModelId_conv now conversationId chatModelId) (conversations state)\<rparr>"

text \<open>
  \<open>useActiveConversation\<close>: \<open>find\<close> gives the first conversation whose id is the active
  one, and \<open>|| errorConversation\<close> replaces \<open>undefined\<close> (no string equals \<open>null\<close>).
\<close>

definition useActiveConversation :: "Env \<Rightarrow> ConversationsStore \<Rightarrow> DConversation" where
  "useActiveConversation env state =
     (case find (\<lambda>conversation. Some (c_id conversation) = activeConversationId state)
             (conversations state) of
        None \<Rightarrow> errorConversation env
      | Some conversation \<Rightarrow> conversation)"

section \<open>Sequences of setter calls\<close>

datatype Op =
    AddConversation DConversation
  | DeleteConversation string
  | ResetConversations
  | SetActiveConversationId string
  | SetChatModelId number string ChatModelId
  | SetSystemPurposeId number string SystemPurposeId
  | AddMessage number string DMessage
  | EditMessage number string string DMessagePartial
  | RemoveMessage number string string
  | ReplaceMessages number string "DMessage list"

fun step :: "Env \<Rightarrow> ConversationsStore \<Rightarrow> Op \<Rightarrow> ConversationsStore" where
  "step env s (AddConversation c) = addConversation c s"
| "step env s (DeleteConversation i) = deleteConversation i s"
| "step env s ResetConversations = resetConversations env s"
| "step env s (SetActiveConversationId i) = setActiveConversationId i s"
| "step env s (SetChatModelId now i x) = setChatModelId now i x s"
| "step env s (SetSystemPurposeId now i x) = setSystemPurposeId now i x s"
| "step env s (AddMessage now i m) = addMessage now i m s"
| "step env s (EditMessage now i j p) = editMessage now i j p s"
| "step env s (RemoveMessage now i j) = removeMessage now i j s"
| "step env s (ReplaceMessages now i ms) = replaceMessages now i ms s"

definition run :: "Env \<Rightarrow> ConversationsStore \<Rightarrow> Op list \<Rightarrow> ConversationsStore" where
  "run env s ops = foldl (step env) s ops"

section \<open>Object identity\<close>

text \<open>
  An object literal evaluates to a new object; \<open>return conversation\<close> gives back the
  object the callback received. No setter writes into an existing object, so an object
  is modelled as its address paired with its content, \<open>a === b\<close> compares the addresses,
  and \<open>nextRef\<close> is the first address not in use. \<open>mapObjects literal f\<close> is
  \<open>Array.prototype.map\<close> with a callback that returns a new literal with content \<open>f c\<close>
  where \<open>literal c\<close> holds and its argument otherwise.
\<close>

type_synonym ref = nat
type_synonym ConvObj = "ref \<times> DConversation"

record RefStore =
  objects :: "ConvObj list"
  nextRef :: ref

fun mapObjects ::
  "(DConversation \<Rightarrow> bool) \<Rightarrow> (DConversation \<Rightarrow> DConversation) \<Rightarrow> ref \<Rightarrow> ConvObj list
     \<Rightarrow> ConvObj list \<times> ref" where
  "mapObjects literal f n [] = ([], n)"
| "mapObjects literal f n ((r, c) # xs) =
     (if literal c
      then (case mapObjects literal f (Suc n) xs of (ys, n') \<Rightarrow> ((n, f c) # ys, n'))
      else (case mapObjects literal f n xs of (ys, n') \<Rightarrow> ((r, c) # ys, n')))"

definition setObjects :: "RefStore \<Rightarrow> ConvObj list \<times> ref \<Rightarrow> RefStore" where
  "setObjects rs res = rs\<lparr>objects := fst res, nextRef := snd res\<rparr>"

text \<open>
  The callback of \<open>addMessage\<close> is the literal \<open>({...conversation, ...})\<close> for every
  conversation; the callbacks of the other five build a literal inside
  \<open>if (conversation.id === conversationId)\<close> and end with \<open>return conversation\<close>.
\<close>

definition addMessage_ref :: "number \<Rightarrow> string \<Rightarrow> DMessage \<Rightarrow> RefStore \<Rightarrow> RefStore" where
  "addMessage_ref now conversationId message rs =
     setObjects rs (mapObjects (\<lambda>conversation. True)
       (addMessage_conv now conversationId message) (nextRef rs) (objects rs))"

definition editMessage_ref ::
  "number \<Rightarrow> string \<Rightarrow> string \<Rightarrow> DMessagePartial \<Rightarrow> RefStore \<Rightarrow> RefStore" where
  "editMessage_ref now conversationId messageId updatedMessage rs =
     setObjects rs (mapObjects (\<lambda>conversation. c_id conversation = conversationId)
       (editMessage_conv now conversationId messageId updatedMessage) (nextRef rs) (objects rs))"

definition removeMessage_ref :: "number \<Rightarrow> string \<Rightarrow> string \<Rightarrow> RefStore \<Rightarrow> RefStore" where
  "removeMessage_ref now conversationId messageId rs =
     setObjects rs (mapObjects (\<lambda>conversation. c_id conversation = conversationId)
       (removeMessage_conv now conversationId messageId) (nextRef rs) (objects rs))"

definition replaceMessages_ref :: "number \<Rightarrow> string \<Rightarrow> DMessage list \<Rightarrow> RefStore \<Rightarrow> RefStore" where
  "replaceMessages_ref now conversationId newMessages rs =
     setObjects rs (mapObjects (\<lambda>conversation. c_id conversation = conversationId)
       (replaceMessages_conv now conversationId newMessages) (nextRef rs) (objects rs))"

definition setSystemPurposeId_ref ::
  "number \<Rightarrow> string \<Rightarrow> SystemPurposeId \<Rightarrow> RefStore \<Rightarrow> RefStore" where
  "setSystemPurposeId_ref now conversationId systemPurposeId rs =
     setObjects rs (mapObjects (\<lambda>conversation. c_id conversation = conversationId)
       (setSystemPurposeId_conv now conversationId systemPurposeId) (nextRef rs) (objects rs))"

definition setChatModelId_ref :: "number \<Rightarrow> string \<Rightarrow> ChatModelId \<Rightarrow> RefStore \<Rightarrow> RefStore" where
  "setChatModelId_ref now conversationId chatModelId rs =
     setObjects rs (mapObjects (\<lambda>conversation. c_id conversation = conversationId)
       (setChatModelId_conv now conversationId chatModelId) (nextRef rs) (objects rs))"

section \<open>Notions used in the statements\<close>

text \<open>
  The stored aggregate of a conversation, read as the source reads it
  (\<open>conversation.cacheTokensCount || 0\<close>), is the sum over its messages.
\<close>

definition exact :: "DConversation \<Rightarrow> bool" where
  "exact c = (orZero (c_cacheTokensCount c) = sumTokens (c_messages c))"

text \<open>Every conversation handed to \<open>addConversation\<close> carries the sum of its own messages.\<close>

fun exactArgument :: "Op \<Rightarrow> bool" where
  "exactArgument (AddConversation c) = exact c"
| "exactArgument op = True"

text \<open>
  Every conversation handed to \<open>addConversation\<close> along a sequence of calls has an id
  that is not in the list at the moment of the call.
\<close>

fun freshIds :: "Env \<Rightarrow> ConversationsStore \<Rightarrow> Op list \<Rightarrow> bool" where
  "freshIds env s [] = True"
| "freshIds env s (AddConversation c # ops) =
     (c_id c \<notin> set (map c_id (conversations s)) \<and> freshIds env (addConversation c s) ops)"
| "freshIds env s (op # ops) = freshIds env (step env s op) ops"

text \<open>
  Writing \<open>now\<close> into \<open>updated\<close> of the conversations with the given id and of their
  messages with the given id, and nothing else.
\<close>

definition restamp :: "number \<Rightarrow> string \<Rightarrow> string \<Rightarrow> ConversationsStore \<Rightarrow> ConversationsStore" where
  "restamp now conversationId messageId state =
     state\<lparr>conversations :=
       map (\<lambda>c. if c_id c = conversationId
                then c\<lparr>c_messages :=
                         map (\<lambda>m. if m_id m = messageId then m\<lparr>m_updated := Some now\<rparr> else m)
                           (c_messages c),
                       c_updated := Some now\<rparr>
                else c)
         (conversations state)\<rparr>"

text \<open>A state with every \<open>updated\<close> timestamp blanked.\<close>

definition forgetUpdated :: "ConversationsStore \<Rightarrow> ConversationsStore" where
  "forgetUpdated state =
     state\<lparr>conversations :=
       map (\<lambda>c. c\<lparr>c_messages := map (\<lambda>m. m\<lparr>m_updated := None\<rparr>) (c_messages c),
                   c_updated := None\<rparr>)
         (conversations state)\<rparr>"

text \<open>
  Recomputing the aggregate of the conversations with the given id and writing \<open>now\<close>
  into their \<open>updated\<close>, with the messages left as they are.
\<close>

definition recount :: "number \<Rightarrow> string \<Rightarrow> ConversationsStore \<Rightarrow> ConversationsStore" where
  "recount now conversationId state =
     state\<lparr>conversations :=
       map (\<lambda>c. if c_id c = conversationId
                then c\<lparr>c_cacheTokensCount := Some (sumTokens (c_messages c)),
                       c_updated := Some now\<rparr>
                else c)
         (conversations state)\<rparr>"

section \<open>Example inputs\<close>

definition exampleEnv :: Env where
  "exampleEnv = \<lparr> defaultChatModelId = ''gpt-4'', loadTimeDefault = 1, loadTimeError = 1 \<rparr>"

definition exampleMessage :: "string \<Rightarrow> number option \<Rightarrow> DMessage" where
  "exampleMessage ident tokens =
     \<lparr> m_id = ident, m_text = ''hi'', m_sender = ''You'', m_avatar = None, m_typing = False,
       m_role = user, m_modelId = None, m_purposeId = None, m_cacheTokensCount = tokens,
       m_created = 1, m_updated = None \<rparr>"

definition exampleConversation :: "string \<Rightarrow> DMessage list \<Rightarrow> number option \<Rightarrow> DConversation" where
  "exampleConversation ident messages tokens =
     \<lparr> c_id = ident, c_name = ''Chat'', c_messages = messages, c_systemPurposeId = ''Generic'',
       c_chatModelId = ''gpt-4'', c_userTitle = None, c_autoTitle = None,
       c_cacheTokensCount = tokens, c_created = 1, c_updated = None \<rparr>"

definition emptyPartial :: DMessagePartial where
  "emptyPartial =
     \<lparr> p_id = None, p_text = None, p_sender = None, p_avatar = None, p_typing = None,
       p_role = None, p_modelId = None, p_purposeId = None, p_cacheTokensCount = None,
       p_created = None, p_updated = None \<rparr>"

text \<open>
  A store that holds a conversation whose stored aggregate (7) is not the sum over its
  messages (0), as \<open>addConversation\<close> accepts it from a caller.
\<close>

definition staleState :: ConversationsStore where
  "staleState = addConversation (exampleConversation ''a'' [] (Some 7)) (initialState exampleEnv)"

definition exactOps :: "Op list" where
  "exactOps = [AddConversation
      (exampleConversation ''a'' [exampleMessage ''m0'' (Some 2)] (Some 2))]"

text \<open>Two conversation objects, at the addresses 0 and 1.\<close>

definition exampleRefStore :: RefStore where
  "exampleRefStore =
     \<lparr> objects = [(0, exampleConversation ''a'' [] None), (1, exampleConversation ''b'' [] None)],
       nextRef = 2 \<rparr>"

section \<open>The list of conversations is capped\<close>

lemma take_20_insert: "take 20 (xs @ c # take 19 ys) = take 20 (xs @ c # ys)"
  by (cases "length xs < 20") (simp_all add: take_Cons' min_def)

lemma conversations_addConversation_many:
  "conversations (foldl (\<lambda>s c. addConversation c s) (addConversation c s) cs)
     = take 20 (rev cs @ c # conversations s)"
proof (induction cs arbitrary: c s)
  case Nil
  show ?case by (simp add: addConversation_def)
next
  case (Cons c' cs)
  have "conversations (foldl (\<lambda>s c. addConversation c s) (addConversation c' (addConversation c s)) cs)
        = take 20 (rev cs @ c' # conversations (addConversation c s))"
    by (rule Cons.IH)
  also have "\<dots> = take 20 ((rev cs @ [c']) @ c # take 19 (conversations s))"
    by (simp add: addConversation_def)
  also have "\<dots> = take 20 ((rev cs @ [c']) @ c # conversations s)"
    by (rule take_20_insert)
  finally show ?case by simp
qed

lemma newest_20_of_25: "take 20 (rev [Suc 0..<26]) = rev [6..<26]"
  by (simp add: upt_rec)

text \<open>
  Claim C2. In every store state \<open>addConversation\<close> puts the new conversation first and
  leaves at most 20 conversations. Starting from an empty list, the 25 calls with the
  conversations \<open>f 1\<close>, ..., \<open>f 25\<close> (any conversations, so also any with distinct ids
  \<open>c1\<close>, ..., \<open>c25\<close>) leave exactly the 20 conversations \<open>f 25\<close>, \<open>f 24\<close>, ...,
  \<open>f 6\<close>, in this order; \<open>f 1\<close>, ..., \<open>f 5\<close> are gone.
\<close>

theorem addConversation_prepends_and_caps:
  "hd (conversations (addConversation c s)) = c
   \<and> length (conversations (addConversation c s)) \<le> 20
   \<and> conversations (foldl (\<lambda>s c. addConversation c s) (s\<lparr>conversations := []\<rparr>) (map f [1..<26]))
       = map f (rev [6..<26])
   \<and> length (conversations
         (foldl (\<lambda>s c. addConversation c s) (s\<lparr>conversations := []\<rparr>) (map f [1..<26]))) = 20"
proof -
  have a: "hd (conversations (addConversation c s)) = c"
    by (simp add: addConversation_def)
  have b: "length (conversations (addConversation c s)) \<le> 20"
    by (simp add: addConversation_def)
  have e: "[1..<26] = 1 # [2..<26]" by (simp add: upt_rec)
  then have "conversations (foldl (\<lambda>s c. addConversation c s) (s\<lparr>conversations := []\<rparr>) (map f [1..<26]))
     = take 20 (rev (map f [2..<26]) @ [f 1])"
    using conversations_addConversation_many [of "f 1" "s\<lparr>conversations := []\<rparr>" "map f [2..<26]"]
    by simp
  also have "\<dots> = take 20 (map f (rev [1..<26]))"
    by (simp only: e list.map rev.simps rev_map map_append)
  also have "\<dots> = map f (rev [6..<26])"
    by (simp add: take_map newest_20_of_25)
  finally have d: "conversations
      (foldl (\<lambda>s c. addConversation c s) (s\<lparr>conversations := []\<rparr>) (map f [1..<26]))
        = map f (rev [6..<26])" .
  then have "length (conversations
      (foldl (\<lambda>s c. addConversation c s) (s\<lparr>conversations := []\<rparr>) (map f [1..<26]))) = 20"
    by simp
  with a b d show ?thesis by blast
qed

section \<open>The active conversation\<close>

text \<open>
  Claim C10. Of all setters only \<open>setActiveConversationId\<close> changes
  \<open>activeConversationId\<close>. Deleting the active conversation leaves the pointer on the
  deleted id, which then resolves to no conversation, and \<open>resetConversations\<close> keeps the
  pointer too, while the only id left in the list is \<open>default\<close>.
\<close>

theorem only_setActiveConversationId_moves_the_pointer:
  "activeConversationId (step env s op)
     = (case op of SetActiveConversationId i \<Rightarrow> Some i | _ \<Rightarrow> activeConversationId s)
   \<and> activeConversationId (deleteConversation i (setActiveConversationId i s)) = Some i
   \<and> i \<notin> c_id ` set (conversations (deleteConversation i (setActiveConversationId i s)))
   \<and> activeConversationId (resetConversations env s) = activeConversationId s
   \<and> c_id ` set (conversations (resetConversations env s)) = {''default''}"
proof -
  have a: "activeConversationId (step env s op)
     = (case op of SetActiveConversationId i \<Rightarrow> Some i | _ \<Rightarrow> activeConversationId s)"
    by (cases op)
      (simp_all add: addConversation_def deleteConversation_def resetConversations_def
        setActiveConversationId_def setChatModelId_def setSystemPurposeId_def addMessage_def
        editMessage_def removeMessage_def replaceMessages_def)
  have b: "activeConversationId (deleteConversation i (setActiveConversationId i s)) = Some i"
    by (simp add: deleteConversation_def setActiveConversationId_def)
  have c: "i \<notin> c_id ` set (conversations (deleteConversation i (setActiveConversationId i s)))"
    by (auto simp add: deleteConversation_def)
  have d: "activeConversationId (resetConversations env s) = activeConversationId s"
    by (simp add: resetConversations_def)
  have e: "c_id ` set (conversations (resetConversations env s)) = {''default''}"
    by (simp add: resetConversations_def defaultConversations_def createConversation_def)
  from a b c d e show ?thesis by blast
qed

lemma find_None_iff_no_match: "(find P xs = None) = (\<forall>x\<in>set xs. \<not> P x)"
  by (induction xs) simp_all

text \<open>
  Claim C5. When no conversation of the list has the active id (which includes the
  pointer \<open>null\<close>), \<open>useActiveConversation\<close> returns \<open>errorConversation\<close>, the one constant
  of the module, whatever the state; so it does after \<open>deleteConversation\<close> of the
  active conversation. The result is a conversation, never \<open>null\<close> or an error: the
  function is total.
\<close>

theorem useActiveConversation_sentinel:
  "((\<forall>c\<in>set (conversations s). Some (c_id c) \<noteq> activeConversationId s)
      \<longrightarrow> useActiveConversation env s = errorConversation env)
   \<and> useActiveConversation env (deleteConversation i (setActiveConversationId i s))
       = errorConversation env"
proof -
  have a: "useActiveConversation env s = errorConversation env"
    if "\<forall>c\<in>set (conversations s). Some (c_id c) \<noteq> activeConversationId s"
  proof -
    from that have "find (\<lambda>c. Some (c_id c) = activeConversationId s) (conversations s) = None"
      by (simp add: find_None_iff_no_match)
    then show ?thesis by (simp add: useActiveConversation_def)
  qed
  have "find (\<lambda>c. Some (c_id c) = Some i) (filter (\<lambda>c. c_id c \<noteq> i) (conversations s)) = None"
    by (simp add: find_None_iff_no_match)
  then have b: "useActiveConversation env (deleteConversation i (setActiveConversationId i s))
       = errorConversation env"
    by (simp add: useActiveConversation_def deleteConversation_def setActiveConversationId_def)
  from a b show ?thesis by blast
qed

theorem useActiveConversation_sentinel_witness:
  "map c_id (conversations (setActiveConversationId ''gone'' (initialState exampleEnv))) = [''default'']
   \<and> activeConversationId (setActiveConversationId ''gone'' (initialState exampleEnv)) = Some ''gone''
   \<and> useActiveConversation exampleEnv (setActiveConversationId ''gone'' (initialState exampleEnv))
       = errorConversation exampleEnv
   \<and> c_id (errorConversation exampleEnv) = ''error-missing''"
  using useActiveConversation_sentinel
    [of "setActiveConversationId ''gone'' (initialState exampleEnv)" exampleEnv]
  by (simp add: setActiveConversationId_def initialState_def defaultConversations_def
      createConversation_def errorConversation_def)

section \<open>Resetting\<close>

text \<open>
  Claim C7 as stated fails: the conversation that \<open>resetConversations\<close> installs has no
  \<open>cacheTokensCount\<close> key, so the value is \<open>undefined\<close>, not the number 0.
\<close>

theorem resetConversations_aggregate_counterexample:
  "map c_cacheTokensCount (conversations (resetConversations exampleEnv (initialState exampleEnv)))
     \<noteq> [Some 0]"
  by (simp add: resetConversations_def defaultConversations_def createConversation_def)

text \<open>
  Claim C7, amended. In every store state \<open>resetConversations\<close> replaces the list with
  the module's \<open>defaultConversations\<close>: exactly one conversation, with id \<open>default\<close>, an
  empty message list and no \<open>cacheTokensCount\<close> (which \<open>|| 0\<close> reads as 0).
\<close>

theorem resetConversations_single_default:
  "conversations (resetConversations env s) = defaultConversations env
   \<and> length (conversations (resetConversations env s)) = 1
   \<and> map c_id (conversations (resetConversations env s)) = [''default'']
   \<and> map c_messages (conversations (resetConversations env s)) = [[]]
   \<and> map c_cacheTokensCount (conversations (resetConversations env s)) = [None]
   \<and> map (\<lambda>c. orZero (c_cacheTokensCount c)) (conversations (resetConversations env s)) = [0]"
  by (simp add: resetConversations_def defaultConversations_def createConversation_def orZero_def)

section \<open>Lemmas shared by the claims\<close>

lemma orZero_simps [simp]: "orZero None = 0" "orZero (Some n) = n"
  by (simp_all add: orZero_def)

lemma sumTokens_sum_list: "sumTokens ms = sum_list (map (\<lambda>m. orZero (m_cacheTokensCount m)) ms)"
proof -
  have "foldl (\<lambda>sum message. sum + orZero (m_cacheTokensCount message)) a ms
        = a + sum_list (map (\<lambda>m. orZero (m_cacheTokensCount m)) ms)" for a
    by (induction ms arbitrary: a) simp_all
  then show ?thesis by (simp add: sumTokens_def)
qed

lemma sumTokens_Nil [simp]: "sumTokens [] = 0"
  by (simp add: sumTokens_def)

lemma sumTokens_snoc: "sumTokens (ms @ [m]) = sumTokens ms + orZero (m_cacheTokensCount m)"
  by (simp add: sumTokens_sum_list)

lemma c_id_addMessage_conv [simp]: "c_id (addMessage_conv now i m c) = c_id c"
  by (simp add: addMessage_conv_def)

lemma c_id_editMessage_conv [simp]: "c_id (editMessage_conv now i j p c) = c_id c"
  by (simp add: editMessage_conv_def Let_def)

lemma c_id_removeMessage_conv [simp]: "c_id (removeMessage_conv now i j c) = c_id c"
  by (simp add: removeMessage_conv_def Let_def)

lemma c_id_replaceMessages_conv [simp]: "c_id (replaceMessages_conv now i ms c) = c_id c"
  by (simp add: replaceMessages_conv_def)

lemma c_id_setSystemPurposeId_conv [simp]: "c_id (setSystemPurposeId_conv now i x c) = c_id c"
  by (simp add: setSystemPurposeId_conv_def)

lemma c_id_setChatModelId_conv [simp]: "c_id (setChatModelId_conv now i x c) = c_id c"
  by (simp add: setChatModelId_conv_def)

lemma run_Nil [simp]: "run env s [] = s"
  by (simp add: run_def)

lemma run_Cons [simp]: "run env s (op # ops) = run env (step env s op) ops"
  by (simp add: run_def)

section \<open>Conversation ids\<close>

lemma ids_step_other:
  "\<forall>c. op \<noteq> AddConversation c \<Longrightarrow> distinct (map c_id (conversations s))
     \<Longrightarrow> distinct (map c_id (conversations (step env s op)))"
  by (cases op)
    (simp_all add: deleteConversation_def resetConversations_def setActiveConversationId_def
      setChatModelId_def setSystemPurposeId_def addMessage_def editMessage_def removeMessage_def
      replaceMessages_def defaultConversations_def distinct_map_filter o_def)

lemma ids_addConversation:
  assumes "distinct (map c_id (conversations s))" and "c_id c \<notin> set (map c_id (conversations s))"
  shows "distinct (map c_id (conversations (addConversation c s)))"
proof -
  have "distinct (take 19 (map c_id (conversations s)))"
    using assms(1) by (rule distinct_take)
  moreover have "c_id c \<notin> set (take 19 (map c_id (conversations s)))"
    using assms(2) by (blast dest: in_set_takeD)
  ultimately show ?thesis by (simp add: addConversation_def take_map)
qed

lemma freshIds_Cons:
  "freshIds env s (op # ops) =
     ((case op of AddConversation c \<Rightarrow> c_id c \<notin> set (map c_id (conversations s)) | _ \<Rightarrow> True)
      \<and> freshIds env (step env s op) ops)"
  by (cases op) simp_all

lemma ids_step:
  assumes "distinct (map c_id (conversations s))"
    and "case op of AddConversation c \<Rightarrow> c_id c \<notin> set (map c_id (conversations s)) | _ \<Rightarrow> True"
  shows "distinct (map c_id (conversations (step env s op)))"
proof (cases "\<exists>c. op = AddConversation c")
  case True
  then show ?thesis using assms by (auto simp add: ids_addConversation)
next
  case False
  then show ?thesis using assms(1) by (simp add: ids_step_other)
qed

lemma ids_run:
  "distinct (map c_id (conversations s)) \<Longrightarrow> freshIds env s ops
     \<Longrightarrow> distinct (map c_id (conversations (run env s ops)))"
proof (induction ops arbitrary: s)
  case Nil
  then show ?case by simp
next
  case (Cons op ops)
  from Cons.prems have "distinct (map c_id (conversations (step env s op)))"
    by (simp only: freshIds_Cons ids_step)
  moreover from Cons.prems have "freshIds env (step env s op) ops"
    by (simp only: freshIds_Cons)
  ultimately show ?case by (simp add: Cons.IH)
qed

text \<open>
  Claim C8 as stated fails: \<open>addConversation\<close> does not look at the ids in the list, so
  one call with a conversation named \<open>default\<close> on the initial store leaves two
  conversations with that id.
\<close>

theorem duplicate_id_counterexample:
  "\<not> distinct (map c_id (conversations
       (run exampleEnv (initialState exampleEnv)
          [AddConversation (exampleConversation ''default'' [] None)])))"
  by (simp add: addConversation_def initialState_def defaultConversations_def
      createConversation_def exampleConversation_def)

text \<open>
  Claim C8, amended. In every state reached from the initial one by setter calls in which
  each conversation handed to \<open>addConversation\<close> has an id that is not in the list at
  that moment, the ids of the conversations in the list are pairwise different.
\<close>

theorem ids_unique_when_callers_supply_fresh_ids:
  "freshIds env (initialState env) ops
     \<Longrightarrow> distinct (map c_id (conversations (run env (initialState env) ops)))"
  by (rule ids_run) (simp_all add: initialState_def defaultConversations_def)

theorem ids_unique_when_callers_supply_fresh_ids_witness:
  "freshIds exampleEnv (initialState exampleEnv)
     [AddConversation (exampleConversation ''a'' [] None),
      AddMessage 5 ''a'' (exampleMessage ''m1'' (Some 3)),
      DeleteConversation ''default'',
      AddConversation (exampleConversation ''default'' [] None)]
   \<and> map c_id (conversations (run exampleEnv (initialState exampleEnv)
     [AddConversation (exampleConversation ''a'' [] None),
      AddMessage 5 ''a'' (exampleMessage ''m1'' (Some 3)),
      DeleteConversation ''default'',
      AddConversation (exampleConversation ''default'' [] None)])) = [''default'', ''a'']
   \<and> distinct (map c_id (conversations (run exampleEnv (initialState exampleEnv)
     [AddConversation (exampleConversation ''a'' [] None),
      AddMessage 5 ''a'' (exampleMessage ''m1'' (Some 3)),
      DeleteConversation ''default'',
      AddConversation (exampleConversation ''default'' [] None)])))"
  using ids_unique_when_callers_supply_fresh_ids [of exampleEnv
     "[AddConversation (exampleConversation ''a'' [] None),
      AddMessage 5 ''a'' (exampleMessage ''m1'' (Some 3)),
      DeleteConversation ''default'',
      AddConversation (exampleConversation ''default'' [] None)]"]
  by (simp add: addConversation_def deleteConversation_def addMessage_def initialState_def
      defaultConversations_def createConversation_def exampleConversation_def)

section \<open>The aggregate\<close>

lemma aggregate_editMessage_conv:
  "c_id c = i \<Longrightarrow> c_cacheTokensCount (editMessage_conv now i j p c)
     = Some (sumTokens (c_messages (editMessage_conv now i j p c)))"
  by (simp add: editMessage_conv_def Let_def)

lemma aggregate_removeMessage_conv:
  "c_id c = i \<Longrightarrow> c_cacheTokensCount (removeMessage_conv now i j c)
     = Some (sumTokens (c_messages (removeMessage_conv now i j c)))"
  by (simp add: removeMessage_conv_def Let_def)

lemma aggregate_replaceMessages_conv:
  "c_id c = i \<Longrightarrow> c_cacheTokensCount (replaceMessages_conv now i ms c)
     = Some (sumTokens (c_messages (replaceMessages_conv now i ms c)))"
  by (simp add: replaceMessages_conv_def)

lemma messages_addMessage_conv:
  "c_id c = i \<Longrightarrow> c_messages (addMessage_conv now i m c) = c_messages c @ [m]"
  by (simp add: addMessage_conv_def)

lemma aggregate_addMessage_conv:
  "c_id c = i \<Longrightarrow> c_cacheTokensCount (addMessage_conv now i m c)
     = Some (orZero (c_cacheTokensCount c) + orZero (m_cacheTokensCount m))"
  by (simp add: addMessage_conv_def)

lemma exact_addMessage_conv: "exact c \<Longrightarrow> exact (addMessage_conv now i m c)"
  by (simp add: exact_def addMessage_conv_def sumTokens_snoc)

lemma exact_editMessage_conv: "exact c \<Longrightarrow> exact (editMessage_conv now i j p c)"
  by (simp add: exact_def editMessage_conv_def Let_def)

lemma exact_removeMessage_conv: "exact c \<Longrightarrow> exact (removeMessage_conv now i j c)"
  by (simp add: exact_def removeMessage_conv_def Let_def)

lemma exact_replaceMessages_conv: "exact c \<Longrightarrow> exact (replaceMessages_conv now i ms c)"
  by (simp add: exact_def replaceMessages_conv_def)

lemma exact_setSystemPurposeId_conv: "exact c \<Longrightarrow> exact (setSystemPurposeId_conv now i x c)"
  by (simp add: exact_def setSystemPurposeId_conv_def)

lemma exact_setChatModelId_conv: "exact c \<Longrightarrow> exact (setChatModelId_conv now i x c)"
  by (simp add: exact_def setChatModelId_conv_def)

lemma exact_default: "\<forall>c\<in>set (defaultConversations env). exact c"
  by (simp add: defaultConversations_def createConversation_def exact_def)

lemma exact_step:
  assumes "\<forall>c\<in>set (conversations s). exact c" and "exactArgument op"
  shows "\<forall>c\<in>set (conversations (step env s op)). exact c"
proof (cases op)
  case (AddConversation c)
  then show ?thesis using assms by (auto simp add: addConversation_def dest: in_set_takeD)
next
  case (DeleteConversation i)
  then show ?thesis using assms by (simp add: deleteConversation_def)
next
  case ResetConversations
  then show ?thesis using exact_default by (simp add: resetConversations_def)
next
  case (SetActiveConversationId i)
  then show ?thesis using assms by (simp add: setActiveConversationId_def)
next
  case (SetChatModelId now i x)
  then show ?thesis using assms by (simp add: setChatModelId_def exact_setChatModelId_conv)
next
  case (SetSystemPurposeId now i x)
  then show ?thesis using assms by (simp add: setSystemPurposeId_def exact_setSystemPurposeId_conv)
next
  case (AddMessage now i m)
  then show ?thesis using assms by (simp add: addMessage_def exact_addMessage_conv)
next
  case (EditMessage now i j p)
  then show ?thesis using assms by (simp add: editMessage_def exact_editMessage_conv)
next
  case (RemoveMessage now i j)
  then show ?thesis using assms by (simp add: removeMessage_def exact_removeMessage_conv)
next
  case (ReplaceMessages now i ms)
  then show ?thesis using assms by (simp add: replaceMessages_def exact_replaceMessages_conv)
qed

lemma exact_run:
  "\<forall>c\<in>set (conversations s). exact c \<Longrightarrow> list_all exactArgument ops
     \<Longrightarrow> \<forall>c\<in>set (conversations (run env s ops)). exact c"
proof (induction ops arbitrary: s)
  case Nil
  then show ?case by simp
next
  case (Cons op ops)
  from Cons.prems have "\<forall>c\<in>set (conversations (step env s op)). exact c"
    by (intro exact_step) simp_all
  with Cons.prems show ?case by (simp add: Cons.IH)
qed

text \<open>
  Claim C1 as stated fails: \<open>addConversation\<close> stores the aggregate the caller wrote
  (here 7, with no messages), and \<open>addMessage\<close> adds the count of the new message (3)
  to it. The store then holds 10 for a conversation whose only message counts 3.
\<close>

theorem stale_aggregate_counterexample:
  "c_cacheTokensCount (hd (conversations
      (run exampleEnv (initialState exampleEnv)
         [AddConversation (exampleConversation ''a'' [] (Some 7)),
          AddMessage 5 ''a'' (exampleMessage ''m1'' (Some 3))]))) = Some 10
   \<and> sumTokens (c_messages (hd (conversations
      (run exampleEnv (initialState exampleEnv)
         [AddConversation (exampleConversation ''a'' [] (Some 7)),
          AddMessage 5 ''a'' (exampleMessage ''m1'' (Some 3))])))) = 3
   \<and> c_cacheTokensCount (hd (conversations
      (run exampleEnv (initialState exampleEnv)
         [AddConversation (exampleConversation ''a'' [] (Some 7)),
          AddMessage 5 ''a'' (exampleMessage ''m1'' (Some 3))])))
     \<noteq> Some (sumTokens (c_messages (hd (conversations
      (run exampleEnv (initialState exampleEnv)
         [AddConversation (exampleConversation ''a'' [] (Some 7)),
          AddMessage 5 ''a'' (exampleMessage ''m1'' (Some 3))])))))"
  by (simp add: addConversation_def addMessage_def addMessage_conv_def initialState_def
      defaultConversations_def createConversation_def exampleConversation_def
      exampleMessage_def sumTokens_def)

text \<open>
  Claim C1, amended. Take any state reached from the initial one by setter calls in
  which every conversation handed to \<open>addConversation\<close> carries the sum of its own
  messages. After \<open>addMessage\<close>, \<open>editMessage\<close>, \<open>removeMessage\<close> or \<open>replaceMessages\<close> on
  the conversation id \<open>i\<close>, every conversation with that id has a \<open>cacheTokensCount\<close>
  equal to the sum of the \<open>cacheTokensCount\<close> of its messages, an absent value counting 0.
\<close>

theorem aggregate_exact_after_message_setters:
  assumes "list_all exactArgument ops"
    and "s = run env (initialState env) ops"
    and "s' \<in> {addMessage now i m s, editMessage now i j p s, removeMessage now i j s,
               replaceMessages now i ms s}"
    and "c \<in> set (conversations s')"
    and "c_id c = i"
  shows "c_cacheTokensCount c = Some (sumTokens (c_messages c))"
proof -
  have inv: "\<forall>c\<in>set (conversations s). exact c"
    unfolding assms(2) using exact_default assms(1)
    by (intro exact_run) (simp_all add: initialState_def)
  from assms(3) consider
      (add) "s' = addMessage now i m s" | (edit) "s' = editMessage now i j p s"
    | (remove) "s' = removeMessage now i j s" | (replace) "s' = replaceMessages now i ms s"
    by blast
  then show ?thesis
  proof cases
    case add
    with assms(4) obtain c0 where c0: "c0 \<in> set (conversations s)" "c = addMessage_conv now i m c0"
      by (auto simp add: addMessage_def)
    with assms(5) have "c_id c0 = i" by simp
    moreover from inv c0(1) have "exact c0" by blast
    ultimately show ?thesis
      unfolding c0(2)
      by (simp add: exact_def aggregate_addMessage_conv messages_addMessage_conv sumTokens_snoc)
  next
    case edit
    with assms(4) obtain c0 where c0: "c0 \<in> set (conversations s)" "c = editMessage_conv now i j p c0"
      by (auto simp add: editMessage_def)
    with assms(5) have "c_id c0 = i" by simp
    then show ?thesis unfolding c0(2) by (rule aggregate_editMessage_conv)
  next
    case remove
    with assms(4) obtain c0 where c0: "c0 \<in> set (conversations s)" "c = removeMessage_conv now i j c0"
      by (auto simp add: removeMessage_def)
    with assms(5) have "c_id c0 = i" by simp
    then show ?thesis unfolding c0(2) by (rule aggregate_removeMessage_conv)
  next
    case replace
    with assms(4) obtain c0 where c0: "c0 \<in> set (conversations s)" "c = replaceMessages_conv now i ms c0"
      by (auto simp add: replaceMessages_def)
    with assms(5) have "c_id c0 = i" by simp
    then show ?thesis unfolding c0(2) by (rule aggregate_replaceMessages_conv)
  qed
qed

theorem aggregate_exact_after_message_setters_witness:
  "list_all exactArgument exactOps
   \<and> c_id (hd (conversations (addMessage 5 ''a'' (exampleMessage ''m1'' (Some 3))
        (run exampleEnv (initialState exampleEnv) exactOps)))) = ''a''
   \<and> c_cacheTokensCount (hd (conversations (addMessage 5 ''a'' (exampleMessage ''m1'' (Some 3))
        (run exampleEnv (initialState exampleEnv) exactOps)))) = Some 5"
  using aggregate_exact_after_message_setters [where ops = exactOps and env = exampleEnv
      and s = "run exampleEnv (initialState exampleEnv) exactOps"
      and s' = "addMessage 5 ''a'' (exampleMessage ''m1'' (Some 3))
        (run exampleEnv (initialState exampleEnv) exactOps)"
      and now = 5 and i = "''a''" and m = "exampleMessage ''m1'' (Some 3)"
      and c = "hd (conversations (addMessage 5 ''a'' (exampleMessage ''m1'' (Some 3))
        (run exampleEnv (initialState exampleEnv) exactOps)))"]
  by (simp add: exactOps_def exact_def addConversation_def addMessage_def addMessage_conv_def
      exampleConversation_def exampleMessage_def sumTokens_def)

text \<open>
  Claim C9. In any store state, for the conversation at position \<open>k\<close> with the id the
  setter is called with: \<open>addMessage\<close> writes the stored aggregate (absent as 0) plus the
  count of the new message, so the difference between the stored aggregate and the sum
  over the messages is after the call what it was before; \<open>editMessage\<close>,
  \<open>removeMessage\<close> and \<open>replaceMessages\<close> write the sum over the resulting messages.
\<close>

theorem addMessage_adds_to_the_stored_aggregate:
  assumes "k < length (conversations s)" and "c_id (conversations s ! k) = i"
  shows "orZero (c_cacheTokensCount (conversations (addMessage now i m s) ! k))
           - sumTokens (c_messages (conversations (addMessage now i m s) ! k))
         = orZero (c_cacheTokensCount (conversations s ! k)) - sumTokens (c_messages (conversations s ! k))
     \<and> c_cacheTokensCount (conversations (addMessage now i m s) ! k)
         = Some (orZero (c_cacheTokensCount (conversations s ! k)) + orZero (m_cacheTokensCount m))
     \<and> c_cacheTokensCount (conversations (editMessage now i j p s) ! k)
         = Some (sumTokens (c_messages (conversations (editMessage now i j p s) ! k)))
     \<and> c_cacheTokensCount (conversations (removeMessage now i j s) ! k)
         = Some (sumTokens (c_messages (conversations (removeMessage now i j s) ! k)))
     \<and> c_cacheTokensCount (conversations (replaceMessages now i ms s) ! k)
         = Some (sumTokens (c_messages (conversations (replaceMessages now i ms s) ! k)))"
  using assms
  by (simp add: addMessage_def editMessage_def removeMessage_def replaceMessages_def
      aggregate_addMessage_conv messages_addMessage_conv sumTokens_snoc
      aggregate_editMessage_conv aggregate_removeMessage_conv aggregate_replaceMessages_conv)

theorem addMessage_adds_to_the_stored_aggregate_witness:
  "0 < length (conversations staleState) \<and> c_id (conversations staleState ! 0) = ''a''
   \<and> orZero (c_cacheTokensCount (conversations staleState ! 0))
        - sumTokens (c_messages (conversations staleState ! 0)) = 7
   \<and> orZero (c_cacheTokensCount
          (conversations (addMessage 5 ''a'' (exampleMessage ''m1'' (Some 3)) staleState) ! 0))
        - sumTokens (c_messages
          (conversations (addMessage 5 ''a'' (exampleMessage ''m1'' (Some 3)) staleState) ! 0)) = 7
   \<and> c_cacheTokensCount
        (conversations (addMessage 5 ''a'' (exampleMessage ''m1'' (Some 3)) staleState) ! 0) = Some 10
   \<and> c_cacheTokensCount
        (conversations (removeMessage 5 ''a'' ''m1'' staleState) ! 0) = Some 0"
  using addMessage_adds_to_the_stored_aggregate [of 0 staleState "''a''" 5
      "exampleMessage ''m1'' (Some 3)" "''m1''" emptyPartial "[]"]
  by (simp add: staleState_def addConversation_def addMessage_def addMessage_conv_def
      removeMessage_def removeMessage_conv_def exampleConversation_def exampleMessage_def sumTokens_def)

section \<open>Ids that match nothing\<close>

lemma store_unchanged: "cs = conversations s \<Longrightarrow> s\<lparr>conversations := cs\<rparr> = s"
  by simp

lemma missing_conversation:
  assumes "i \<notin> c_id ` set (conversations s)"
  shows "deleteConversation i s = s" and "setChatModelId now i x s = s"
    and "setSystemPurposeId now i y s = s" and "addMessage now i m s = s"
    and "editMessage now i j p s = s" and "removeMessage now i j s = s"
    and "replaceMessages now i ms s = s"
proof -
  have ne: "c_id c \<noteq> i" if "c \<in> set (conversations s)" for c
    using assms that by blast
  show "deleteConversation i s = s"
    unfolding deleteConversation_def by (rule store_unchanged) (simp add: ne)
  show "setChatModelId now i x s = s"
    unfolding setChatModelId_def
    by (rule store_unchanged) (simp add: map_idI setChatModelId_conv_def ne)
  show "setSystemPurposeId now i y s = s"
    unfolding setSystemPurposeId_def
    by (rule store_unchanged) (simp add: map_idI setSystemPurposeId_conv_def ne)
  show "addMessage now i m s = s"
    unfolding addMessage_def
    by (rule store_unchanged) (simp add: map_idI addMessage_conv_def ne)
  show "editMessage now i j p s = s"
    unfolding editMessage_def
    by (rule store_unchanged) (simp add: map_idI editMessage_conv_def ne)
  show "removeMessage now i j s = s"
    unfolding removeMessage_def
    by (rule store_unchanged) (simp add: map_idI removeMessage_conv_def ne)
  show "replaceMessages now i ms s = s"
    unfolding replaceMessages_def
    by (rule store_unchanged) (simp add: map_idI replaceMessages_conv_def ne)
qed

lemma missing_message:
  assumes "\<forall>c\<in>set (conversations s). c_id c = i \<longrightarrow> j \<notin> m_id ` set (c_messages c)"
  shows "editMessage now i j p s = recount now i s" and "removeMessage now i j s = recount now i s"
proof -
  have ne: "m_id m \<noteq> j" if "c \<in> set (conversations s)" "c_id c = i" "m \<in> set (c_messages c)" for c m
    using assms that by blast
  have e: "map (editMessage_msg now j p) (c_messages c) = c_messages c"
    if "c \<in> set (conversations s)" "c_id c = i" for c
    using ne [OF that] by (simp add: map_idI editMessage_msg_def)
  have r: "filter (\<lambda>m. m_id m \<noteq> j) (c_messages c) = c_messages c"
    if "c \<in> set (conversations s)" "c_id c = i" for c
    using ne [OF that] by simp
  show "editMessage now i j p s = recount now i s"
    by (simp add: editMessage_def recount_def editMessage_conv_def Let_def e cong: map_cong)
  show "removeMessage now i j s = recount now i s"
    by (simp add: removeMessage_def recount_def removeMessage_conv_def Let_def r cong: map_cong)
qed

text \<open>
  Claim C4 as stated fails: \<open>editMessage\<close> with the id of an existing conversation and a
  message id that matches none of its messages still writes \<open>cacheTokensCount\<close> and
  \<open>updated\<close> of the conversation, so the new snapshot differs from the previous one.
\<close>

theorem missing_message_counterexample:
  "editMessage 5 ''default'' ''nope'' emptyPartial (initialState exampleEnv)
     \<noteq> initialState exampleEnv"
proof
  assume "editMessage 5 ''default'' ''nope'' emptyPartial (initialState exampleEnv)
     = initialState exampleEnv"
  then have "map c_updated (conversations
        (editMessage 5 ''default'' ''nope'' emptyPartial (initialState exampleEnv)))
     = map c_updated (conversations (initialState exampleEnv))"
    by simp
  then show False
    by (simp add: editMessage_def editMessage_conv_def initialState_def defaultConversations_def
        createConversation_def exampleEnv_def)
qed

text \<open>
  Claim C4, amended. The setters are total: none throws. With a conversation id that no
  conversation has, \<open>deleteConversation\<close>, \<open>setChatModelId\<close>, \<open>setSystemPurposeId\<close>,
  \<open>addMessage\<close>, \<open>editMessage\<close>, \<open>removeMessage\<close> and \<open>replaceMessages\<close> give a snapshot
  equal in content to the previous one. With a message id that no message of the matching
  conversations has, \<open>editMessage\<close> and \<open>removeMessage\<close> leave the messages as they are
  but still recompute \<open>cacheTokensCount\<close> and write \<open>updated\<close> of those conversations.
  \<open>setActiveConversationId\<close> stores the id it is given, whether it resolves or not.
\<close>

theorem missing_ids_are_tolerated:
  "(i \<notin> c_id ` set (conversations s) \<longrightarrow>
      deleteConversation i s = s \<and> setChatModelId now i x s = s
      \<and> setSystemPurposeId now i y s = s \<and> addMessage now i m s = s
      \<and> editMessage now i j p s = s \<and> removeMessage now i j s = s
      \<and> replaceMessages now i ms s = s)
   \<and> ((\<forall>c\<in>set (conversations s). c_id c = i \<longrightarrow> j \<notin> m_id ` set (c_messages c)) \<longrightarrow>
      editMessage now i j p s = recount now i s \<and> removeMessage now i j s = recount now i s)
   \<and> activeConversationId (setActiveConversationId i s) = Some i"
  using missing_conversation [of i s] missing_message [of s i j]
  by (simp add: setActiveConversationId_def)

theorem missing_ids_are_tolerated_witness:
  "''zz'' \<notin> c_id ` set (conversations (run exampleEnv (initialState exampleEnv) exactOps))
   \<and> map c_id (conversations (run exampleEnv (initialState exampleEnv) exactOps)) = [''a'', ''default'']
   \<and> addMessage 5 ''zz'' (exampleMessage ''m1'' (Some 3))
         (run exampleEnv (initialState exampleEnv) exactOps)
       = run exampleEnv (initialState exampleEnv) exactOps
   \<and> editMessage 5 ''zz'' ''m0'' (emptyPartial\<lparr>p_text := Some ''changed''\<rparr>)
         (run exampleEnv (initialState exampleEnv) exactOps)
       = run exampleEnv (initialState exampleEnv) exactOps
   \<and> map (map m_id) (map c_messages (conversations (run exampleEnv (initialState exampleEnv) exactOps)))
       = [[''m0''], []]
   \<and> editMessage 5 ''a'' ''nope'' (emptyPartial\<lparr>p_text := Some ''changed''\<rparr>)
         (run exampleEnv (initialState exampleEnv) exactOps)
       = recount 5 ''a'' (run exampleEnv (initialState exampleEnv) exactOps)
   \<and> removeMessage 5 ''a'' ''nope'' (run exampleEnv (initialState exampleEnv) exactOps)
       = recount 5 ''a'' (run exampleEnv (initialState exampleEnv) exactOps)
   \<and> map c_messages (conversations (recount 5 ''a'' (run exampleEnv (initialState exampleEnv) exactOps)))
       = [[exampleMessage ''m0'' (Some 2)], []]
   \<and> map c_updated (conversations (recount 5 ''a'' (run exampleEnv (initialState exampleEnv) exactOps)))
       = [Some 5, Some 1]
   \<and> map m_text (c_messages (hd (conversations
         (editMessage 5 ''a'' ''m0'' (emptyPartial\<lparr>p_text := Some ''changed''\<rparr>)
           (run exampleEnv (initialState exampleEnv) exactOps))))) = [''changed'']"
proof -
  let ?s = "run exampleEnv (initialState exampleEnv) exactOps"
  let ?p = "emptyPartial\<lparr>p_text := Some ''changed''\<rparr>"
  have ids: "map c_id (conversations ?s) = [''a'', ''default'']"
    by (simp add: exactOps_def addConversation_def initialState_def defaultConversations_def
        createConversation_def exampleConversation_def)
  have msgs: "map c_messages (conversations ?s) = [[exampleMessage ''m0'' (Some 2)], []]"
    by (simp add: exactOps_def addConversation_def initialState_def defaultConversations_def
        createConversation_def exampleConversation_def)
  have h1: "''zz'' \<notin> c_id ` set (conversations ?s)"
    using ids by (simp flip: set_map)
  have mids: "map (map m_id) (map c_messages (conversations ?s)) = [[''m0''], []]"
    by (simp only: msgs) (simp add: exampleMessage_def)
  have h2: "\<forall>c\<in>set (conversations ?s). c_id c = ''a'' \<longrightarrow> ''nope'' \<notin> m_id ` set (c_messages c)"
    by (simp add: exactOps_def addConversation_def initialState_def defaultConversations_def
        createConversation_def exampleConversation_def exampleMessage_def)
  from h1 missing_ids_are_tolerated [of "''zz''" ?s 5 "''x''" "''y''"
      "exampleMessage ''m1'' (Some 3)" "''m0''" ?p "[]"]
  have a: "addMessage 5 ''zz'' (exampleMessage ''m1'' (Some 3)) ?s = ?s"
    and b: "editMessage 5 ''zz'' ''m0'' ?p ?s = ?s"
    by blast+
  from h2 missing_ids_are_tolerated [of "''a''" ?s 5 "''x''" "''y''"
      "exampleMessage ''m1'' (Some 3)" "''nope''" ?p "[]"]
  have c: "editMessage 5 ''a'' ''nope'' ?p ?s = recount 5 ''a'' ?s"
    and d: "removeMessage 5 ''a'' ''nope'' ?s = recount 5 ''a'' ?s"
    by blast+
  have e: "map c_messages (conversations (recount 5 ''a'' ?s)) = [[exampleMessage ''m0'' (Some 2)], []]"
    by (simp add: recount_def exactOps_def addConversation_def initialState_def
        defaultConversations_def createConversation_def exampleConversation_def)
  have f: "map c_updated (conversations (recount 5 ''a'' ?s)) = [Some 5, Some 1]"
    by (simp add: recount_def exactOps_def addConversation_def initialState_def
        defaultConversations_def createConversation_def exampleConversation_def exampleEnv_def)
  have g: "map m_text (c_messages (hd (conversations (editMessage 5 ''a'' ''m0'' ?p ?s))))
      = [''changed'']"
    by (simp add: editMessage_def editMessage_conv_def editMessage_msg_def mergeMessage_def Let_def
        emptyPartial_def exactOps_def addConversation_def initialState_def
        defaultConversations_def createConversation_def exampleConversation_def exampleMessage_def)
  from h1 ids a b mids c d e f g show ?thesis by blast
qed

section \<open>Editing twice\<close>

lemma mergeMessage_twice:
  "mergeMessage now2 p (mergeMessage now1 p m) = (mergeMessage now1 p m)\<lparr>m_updated := Some now2\<rparr>"
  by (simp add: mergeMessage_def split: option.splits)

lemma editMessage_msg_twice:
  "editMessage_msg now2 j p (editMessage_msg now1 j p m)
     = (if m_id (editMessage_msg now1 j p m) = j
        then (editMessage_msg now1 j p m)\<lparr>m_updated := Some now2\<rparr>
        else editMessage_msg now1 j p m)"
  by (simp add: editMessage_msg_def mergeMessage_twice)

lemma sumTokens_restamped:
  "sumTokens (map (\<lambda>m. if m_id m = j then m\<lparr>m_updated := Some now\<rparr> else m) ms) = sumTokens ms"
  by (simp add: sumTokens_sum_list o_def if_distrib cong: if_cong)

lemma editMessage_conv_twice:
  "editMessage_conv now2 i j p (editMessage_conv now1 i j p c)
     = (if c_id c = i
        then (editMessage_conv now1 i j p c)\<lparr>
               c_messages := map (\<lambda>m. if m_id m = j then m\<lparr>m_updated := Some now2\<rparr> else m)
                  (c_messages (editMessage_conv now1 i j p c)),
               c_updated := Some now2\<rparr>
        else editMessage_conv now1 i j p c)"
proof (cases "c_id c = i")
  case True
  have m: "map (editMessage_msg now2 j p) (map (editMessage_msg now1 j p) ms)
      = map (\<lambda>m. if m_id m = j then m\<lparr>m_updated := Some now2\<rparr> else m)
          (map (editMessage_msg now1 j p) ms)" for ms
    by (simp add: editMessage_msg_twice)
  show ?thesis using True
    by (simp add: editMessage_conv_def Let_def m sumTokens_restamped del: map_map)
next
  case False
  then show ?thesis by (simp add: editMessage_conv_def)
qed

text \<open>
  Claim C6. For every store state, conversation id, message id and payload, the state
  after two calls of \<open>editMessage\<close> with these arguments is the state after one call with
  the second call's clock reading written into \<open>updated\<close> of the conversations and
  messages with these ids; with all \<open>updated\<close> timestamps blanked the two states are equal.
\<close>

theorem editMessage_twice:
  "editMessage now2 i j p (editMessage now1 i j p s) = restamp now2 i j (editMessage now1 i j p s)
   \<and> forgetUpdated (editMessage now2 i j p (editMessage now1 i j p s))
       = forgetUpdated (editMessage now1 i j p s)"
proof -
  have a: "editMessage now2 i j p (editMessage now1 i j p s)
             = restamp now2 i j (editMessage now1 i j p s)"
    by (simp add: editMessage_def restamp_def editMessage_conv_twice)
  have "forgetUpdated (restamp now2 i j t) = forgetUpdated t" for t
    by (simp add: forgetUpdated_def restamp_def o_def if_distrib cong: if_cong)
  with a show ?thesis by simp
qed

section \<open>Which conversations are new objects\<close>

lemma mapObjects_contents:
  "(\<And>c. \<not> literal c \<Longrightarrow> f c = c)
     \<Longrightarrow> map snd (fst (mapObjects literal f n xs)) = map f (map snd xs)"
  by (induction literal f n xs rule: mapObjects.induct) (auto split: prod.splits)

lemma mapObjects_same:
  "k < length xs \<Longrightarrow> \<not> literal (snd (xs ! k)) \<Longrightarrow> fst (mapObjects literal f n xs) ! k = xs ! k"
proof (induction literal f n xs arbitrary: k rule: mapObjects.induct)
  case (1 literal f n)
  then show ?case by simp
next
  case (2 literal f n r c xs)
  then show ?case by (cases k) (auto split: prod.splits)
qed

lemma mapObjects_new:
  "k < length xs \<Longrightarrow> literal (snd (xs ! k)) \<Longrightarrow> n \<le> fst (fst (mapObjects literal f n xs) ! k)"
proof (induction literal f n xs arbitrary: k rule: mapObjects.induct)
  case (1 literal f n)
  then show ?case by simp
next
  case (2 literal f n r c xs)
  show ?case
  proof (cases k)
    case 0
    with "2.prems" show ?thesis by (simp split: prod.splits)
  next
    case (Suc k')
    show ?thesis
    proof (cases "literal c")
      case True
      with "2.IH"(1) [of k'] "2.prems" Suc
      have "Suc n \<le> fst (fst (mapObjects literal f (Suc n) xs) ! k')" by simp
      with True Suc show ?thesis by (simp add: case_prod_beta)
    next
      case False
      with "2.IH"(2) [of k'] "2.prems" Suc
      have "n \<le> fst (fst (mapObjects literal f n xs) ! k')" by simp
      with False Suc show ?thesis by (simp add: case_prod_beta)
    qed
  qed
qed

text \<open>
  The five setters whose callback ends with \<open>return conversation\<close> hand back the very
  object of every conversation with another id.
\<close>

lemma other_setters_keep_other_objects:
  assumes "k < length (objects rs)" and "c_id (snd (objects rs ! k)) \<noteq> i"
  shows "objects (editMessage_ref now i j p rs) ! k = objects rs ! k"
    and "objects (removeMessage_ref now i j rs) ! k = objects rs ! k"
    and "objects (replaceMessages_ref now i ms rs) ! k = objects rs ! k"
    and "objects (setSystemPurposeId_ref now i x rs) ! k = objects rs ! k"
    and "objects (setChatModelId_ref now i y rs) ! k = objects rs ! k"
  using assms
  by (simp_all add: editMessage_ref_def removeMessage_ref_def replaceMessages_ref_def
      setSystemPurposeId_ref_def setChatModelId_ref_def setObjects_def mapObjects_same)

text \<open>
  \<open>addMessage\<close> hands back conversations with the contents of the value-level setter,
  each of them a new object: its address was not in use before the call.
\<close>

lemma addMessage_ref_contents:
  "map snd (objects (addMessage_ref now i m rs)) = map (addMessage_conv now i m) (map snd (objects rs))"
  using mapObjects_contents [of "\<lambda>c. True" "addMessage_conv now i m" "nextRef rs" "objects rs"]
  by (simp add: addMessage_ref_def setObjects_def)

lemma addMessage_ref_new_objects:
  "k < length (objects rs) \<Longrightarrow> nextRef rs \<le> fst (objects (addMessage_ref now i m rs) ! k)"
  by (simp add: addMessage_ref_def setObjects_def mapObjects_new)

lemma addMessage_ref_other_address:
  assumes "\<forall>x\<in>set (objects rs). fst x < nextRef rs" and "k < length (objects rs)"
  shows "fst (objects (addMessage_ref now i m rs) ! k) \<noteq> fst (objects rs ! k)"
proof -
  from assms(2) have "objects rs ! k \<in> set (objects rs)"
    by (rule nth_mem)
  with assms(1) have "fst (objects rs ! k) < nextRef rs" by blast
  moreover from assms(2) have "nextRef rs \<le> fst (objects (addMessage_ref now i m rs) ! k)"
    by (rule addMessage_ref_new_objects)
  ultimately show ?thesis by simp
qed

text \<open>
  Claim C3 at a store with the conversations \<open>a\<close> and \<open>b\<close> (objects 0 and 1):
  \<open>addMessage\<close> on \<open>a\<close> returns two new objects (2 and 3); the one in the place of \<open>b\<close>
  has the content of \<open>b\<close> and another address. \<open>editMessage\<close> on \<open>a\<close> returns a new object
  for \<open>a\<close> and the object 1 itself for \<open>b\<close>.
\<close>

theorem addMessage_reconstructs_other_conversations:
  "map fst (objects exampleRefStore) = [0, 1]
   \<and> map fst (objects (addMessage_ref 5 ''a'' (exampleMessage ''m1'' (Some 3)) exampleRefStore)) = [2, 3]
   \<and> snd (objects (addMessage_ref 5 ''a'' (exampleMessage ''m1'' (Some 3)) exampleRefStore) ! 1)
       = snd (objects exampleRefStore ! 1)
   \<and> map fst (objects (editMessage_ref 5 ''a'' ''m1'' emptyPartial exampleRefStore)) = [2, 1]"
  by (simp add: exampleRefStore_def addMessage_ref_def editMessage_ref_def setObjects_def
      addMessage_conv_def exampleConversation_def)

end
